theory Spec2Isabelle
  imports Complex_Main "HOL-Library.Sublist" "HOL-Library.Char_ord" "HOL-Library.List_Lexorder"
begin

section \<open>Strings\<close>

text \<open>
  Python \<^verbatim>\<open>str\<close> values are modelled as byte strings. \<^verbatim>\<open>str.lower\<close> and
  \<^verbatim>\<open>str.upper\<close> act on the ASCII letters; every other byte is left alone.
\<close>

text \<open>An ASCII letter and its other case differ in bit 5 (value 32) only.\<close>

definition set_bit5 :: "bool \<Rightarrow> char \<Rightarrow> char" where
  "set_bit5 b c = (case c of Char b0 b1 b2 b3 b4 b5 b6 b7 \<Rightarrow> Char b0 b1 b2 b3 b4 b b6 b7)"

definition lower_char :: "char \<Rightarrow> char" where
  "lower_char c = (if CHR ''A'' \<le> c \<and> c \<le> CHR ''Z'' then set_bit5 True c else c)"

definition upper_char :: "char \<Rightarrow> char" where
  "upper_char c = (if CHR ''a'' \<le> c \<and> c \<le> CHR ''z'' then set_bit5 False c else c)"

definition lower :: "string \<Rightarrow> string" where
  "lower s = map lower_char s"

text \<open>\<^verbatim>\<open>str.capitalize\<close>: first character upper-cased, the rest lower-cased.\<close>

fun capitalize :: "string \<Rightarrow> string" where
  "capitalize [] = []"
| "capitalize (c # cs) = upper_char c # lower cs"

text \<open>\<^verbatim>\<open>w in s\<close> on strings: \<open>w\<close> occurs in \<open>s\<close> as a contiguous run.\<close>

fun contains :: "string \<Rightarrow> string \<Rightarrow> bool" where
  "contains w [] = (w = [])"
| "contains w (c # cs) = (prefix w (c # cs) \<or> contains w cs)"


section \<open>Floating-point values\<close>

text \<open>
  A Python or numpy float is a finite value, an infinity or NaN. Finite values are
  modelled as reals, so the rounding error of the 64-bit arithmetic is left out;
  comparisons against a constant are exact either way. Signed zero is not modelled.
\<close>

datatype fl = Fin real | PInf | NInf | NaN

fun fl_gt :: "fl \<Rightarrow> real \<Rightarrow> bool" where
  "fl_gt (Fin x) c = (x > c)"
| "fl_gt PInf c = True"
| "fl_gt NInf c = False"
| "fl_gt NaN c = False"

fun fl_lt :: "fl \<Rightarrow> real \<Rightarrow> bool" where
  "fl_lt (Fin x) c = (x < c)"
| "fl_lt PInf c = False"
| "fl_lt NInf c = True"
| "fl_lt NaN c = False"

fun fl_abs :: "fl \<Rightarrow> fl" where
  "fl_abs (Fin x) = Fin \<bar>x\<bar>"
| "fl_abs PInf = PInf"
| "fl_abs NInf = PInf"
| "fl_abs NaN = NaN"

fun fl_sub :: "fl \<Rightarrow> fl \<Rightarrow> fl" where
  "fl_sub (Fin a) (Fin b) = Fin (a - b)"
| "fl_sub NaN _ = NaN"
| "fl_sub _ NaN = NaN"
| "fl_sub PInf PInf = NaN"
| "fl_sub NInf NInf = NaN"
| "fl_sub PInf _ = PInf"
| "fl_sub NInf _ = NInf"
| "fl_sub (Fin a) PInf = NInf"
| "fl_sub (Fin a) NInf = PInf"

text \<open>numpy division: a finite value divided by zero is an infinity, or NaN for 0/0.\<close>

fun fl_div :: "fl \<Rightarrow> fl \<Rightarrow> fl" where
  "fl_div (Fin a) (Fin b) =
     (if b \<noteq> 0 then Fin (a / b) else if a > 0 then PInf else if a < 0 then NInf else NaN)"
| "fl_div NaN _ = NaN"
| "fl_div _ NaN = NaN"
| "fl_div (Fin a) PInf = Fin 0"
| "fl_div (Fin a) NInf = Fin 0"
| "fl_div PInf (Fin b) = (if b < 0 then NInf else PInf)"
| "fl_div NInf (Fin b) = (if b < 0 then PInf else NInf)"
| "fl_div PInf _ = NaN"
| "fl_div NInf _ = NaN"

fun fl_mul :: "fl \<Rightarrow> fl \<Rightarrow> fl" where
  "fl_mul (Fin a) (Fin b) = Fin (a * b)"
| "fl_mul NaN _ = NaN"
| "fl_mul _ NaN = NaN"
| "fl_mul PInf (Fin b) = (if b > 0 then PInf else if b < 0 then NInf else NaN)"
| "fl_mul NInf (Fin b) = (if b > 0 then NInf else if b < 0 then PInf else NaN)"
| "fl_mul (Fin a) PInf = (if a > 0 then PInf else if a < 0 then NInf else NaN)"
| "fl_mul (Fin a) NInf = (if a > 0 then NInf else if a < 0 then PInf else NaN)"
| "fl_mul PInf PInf = PInf"
| "fl_mul NInf NInf = PInf"
| "fl_mul PInf NInf = NInf"
| "fl_mul NInf PInf = NInf"

text \<open>
  \<^verbatim>\<open>round(x, 2)\<close>: the nearest multiple of 0.01, a tie going to the even hundredth;
  infinities and NaN pass through.
\<close>

definition round_half_even :: "real \<Rightarrow> int" where
  "round_half_even x =
     (let n = \<lfloor>x\<rfloor>; d = x - of_int n
      in if d < 1 / 2 then n else if d > 1 / 2 then n + 1 else if even n then n else n + 1)"

fun round2 :: "fl \<Rightarrow> fl" where
  "round2 (Fin x) = Fin (of_int (round_half_even (x * 100)) / 100)"
| "round2 v = v"

text \<open>\<^verbatim>\<open>int(y)\<close> on a float truncates toward zero.\<close>

definition trunc :: "real \<Rightarrow> int" where
  "trunc x = (if x \<ge> 0 then \<lfloor>x\<rfloor> else \<lceil>x\<rceil>)"

section \<open>Errors\<close>

datatype error = AttributeError | TypeError | ValueError | KeyError

fun map_err :: "('a \<Rightarrow> error + 'b) \<Rightarrow> 'a list \<Rightarrow> error + 'b list" where
  "map_err f [] = Inr []"
| "map_err f (x # xs) =
     (case f x of Inl e \<Rightarrow> Inl e
      | Inr y \<Rightarrow> (case map_err f xs of Inl e \<Rightarrow> Inl e | Inr ys \<Rightarrow> Inr (y # ys)))"

section \<open>The data frame\<close>

text \<open>
  The table held in \<^verbatim>\<open>self.df\<close> is a sequence of named columns of one length. A column
  has one dtype: text cells (pandas \<^verbatim>\<open>object\<close>) or numeric cells (\<^verbatim>\<open>float64\<close>/\<^verbatim>\<open>int64\<close>);
  \<open>None\<close> is a missing cell. Column names are taken as already normalised by
  \<^verbatim>\<open>load_data\<close> and as pairwise distinct.
\<close>

datatype column = TextCol "string option list" | NumCol "real option list"

type_synonym dataframe = "(string \<times> column) list"

fun col_len :: "column \<Rightarrow> nat" where
  "col_len (TextCol xs) = length xs"
| "col_len (NumCol xs) = length xs"

definition nrows :: "dataframe \<Rightarrow> nat" where
  "nrows df = (case df of [] \<Rightarrow> 0 | (_, c) # _ \<Rightarrow> col_len c)"

text \<open>\<^verbatim>\<open>DataFrame.empty\<close>: no columns or no rows.\<close>

definition df_empty :: "dataframe \<Rightarrow> bool" where
  "df_empty df = (df = [] \<or> nrows df = 0)"

definition column_names :: "dataframe \<Rightarrow> string list" where
  "column_names df = map fst df"

text \<open>Boolean-mask selection \<^verbatim>\<open>df[mask]\<close>, column by column.\<close>

definition select :: "bool list \<Rightarrow> 'a list \<Rightarrow> 'a list" where
  "select bs xs = map snd (filter fst (zip bs xs))"

fun select_col :: "bool list \<Rightarrow> column \<Rightarrow> column" where
  "select_col bs (TextCol xs) = TextCol (select bs xs)"
| "select_col bs (NumCol xs) = NumCol (select bs xs)"

definition select_rows :: "bool list \<Rightarrow> dataframe \<Rightarrow> dataframe" where
  "select_rows bs df = map (\<lambda>(name, c). (name, select_col bs c)) df"

definition dropna :: "'a option list \<Rightarrow> 'a list" where
  "dropna xs = [x. Some x \<leftarrow> xs]"

section \<open>Area filtering (utils/data\_processor.py)\<close>

definition area_columns :: "dataframe \<Rightarrow> string list" where
  "area_columns df =
     filter (\<lambda>col. contains ''area'' (lower col) \<or> contains ''location'' (lower col))
       (column_names df)"



text \<open>
  \<^verbatim>\<open>filter_by_area\<close>: without an area column the result is \<^verbatim>\<open>pd.DataFrame()\<close>, the frame
  with no columns. Otherwise the mask compares the lower-cased cells of the first area
  column with the lower-cased argument; a missing cell never matches. The \<^verbatim>\<open>.str\<close>
  accessor raises AttributeError on a numeric column.
\<close>

definition area_mask :: "string \<Rightarrow> string option list \<Rightarrow> bool list" where
  "area_mask area vs = map (\<lambda>v. case v of None \<Rightarrow> False | Some s \<Rightarrow> lower s = lower area) vs"

definition filter_by_area :: "dataframe \<Rightarrow> string \<Rightarrow> error + dataframe" where
  "filter_by_area df area =
     (case area_columns df of
        [] \<Rightarrow> Inr []
      | area_col # _ \<Rightarrow>
          (case map_of df area_col of
             Some (TextCol vs) \<Rightarrow> Inr (select_rows (area_mask area vs) df)
           | Some (NumCol vs) \<Rightarrow> Inl AttributeError
           | None \<Rightarrow> Inl KeyError))"

definition get_area_column :: "dataframe \<Rightarrow> string" where
  "get_area_column df = (case area_columns df of [] \<Rightarrow> [] | area_col # _ \<Rightarrow> area_col)"

section \<open>Grouping by year\<close>

text \<open>
  A group key is a cell of the year column: a number, or a string when the year
  column is text. \<^verbatim>\<open>groupby\<close> and \<^verbatim>\<open>sort_values\<close> order the keys of one column, which are
  all of one kind.
\<close>

datatype key = KNum real | KStr string

instantiation key :: linorder
begin

fun less_eq_key :: "key \<Rightarrow> key \<Rightarrow> bool" where
  "less_eq_key (KNum a) (KNum b) = (a \<le> b)"
| "less_eq_key (KStr a) (KStr b) = (a \<le> b)"
| "less_eq_key (KNum a) (KStr b) = True"
| "less_eq_key (KStr a) (KNum b) = False"

definition less_key :: "key \<Rightarrow> key \<Rightarrow> bool" where
  "less_key x y = (x \<le> y \<and> \<not> y \<le> x)"

instance
proof
  fix x y z :: key
  show "(x < y) = (x \<le> y \<and> \<not> y \<le> x)" by (simp add: less_key_def)
  show "x \<le> x" by (cases x) simp_all
  show "x \<le> y \<Longrightarrow> y \<le> z \<Longrightarrow> x \<le> z" by (cases x; cases y; cases z) simp_all
  show "x \<le> y \<Longrightarrow> y \<le> x \<Longrightarrow> x = y" by (cases x; cases y) simp_all
  show "x \<le> y \<or> y \<le> x" by (cases x; cases y) auto
qed

end

fun keys_of :: "column \<Rightarrow> key option list" where
  "keys_of (NumCol xs) = map (map_option KNum) xs"
| "keys_of (TextCol xs) = map (map_option KStr) xs"

text \<open>
  \<^verbatim>\<open>int(y)\<close> on a key. On a string Python strips white space, reads an optional sign
  and decimal digits (single underscores between digits allowed), and raises
  ValueError on anything else.
\<close>

definition is_space :: "char \<Rightarrow> bool" where
  "is_space c = (c = CHR '' '' \<or> (9 \<le> (of_char c :: nat) \<and> (of_char c :: nat) \<le> 13)
                 \<or> (28 \<le> (of_char c :: nat) \<and> (of_char c :: nat) \<le> 31))"

definition is_digit :: "char \<Rightarrow> bool" where
  "is_digit c = (CHR ''0'' \<le> c \<and> c \<le> CHR ''9'')"

definition digit_val :: "char \<Rightarrow> nat" where
  "digit_val c = of_char c - 48"

definition strip :: "string \<Rightarrow> string" where
  "strip s = rev (dropWhile is_space (rev (dropWhile is_space s)))"

fun digits_us :: "nat \<Rightarrow> string \<Rightarrow> nat option" where
  "digits_us acc [] = Some acc"
| "digits_us acc [c] = (if is_digit c then Some (10 * acc + digit_val c) else None)"
| "digits_us acc (c # d # ds) =
     (if is_digit c then digits_us (10 * acc + digit_val c) (d # ds)
      else if c = CHR ''_'' \<and> is_digit d then digits_us (10 * acc + digit_val d) ds
      else None)"

definition py_int_str :: "string \<Rightarrow> error + int" where
  "py_int_str s =
     (let t = strip s;
          neg = (case t of [] \<Rightarrow> False | c # _ \<Rightarrow> c = CHR ''-'');
          body = (case t of [] \<Rightarrow> [] | c # cs \<Rightarrow> if c = CHR ''-'' \<or> c = CHR ''+'' then cs else t)
      in case body of
           [] \<Rightarrow> Inl ValueError
         | c # cs \<Rightarrow>
             if is_digit c then
               (case digits_us (digit_val c) cs of
                  None \<Rightarrow> Inl ValueError
                | Some n \<Rightarrow> Inr (if neg then - int n else int n))
             else Inl ValueError)"

fun py_int :: "key \<Rightarrow> error + int" where
  "py_int (KNum x) = Inr (trunc x)"
| "py_int (KStr s) = py_int_str s"

text \<open>\<^verbatim>\<open>Series.mean\<close>, \<^verbatim>\<open>min\<close> and \<^verbatim>\<open>max\<close> skip missing cells and give NaN when none is left.\<close>

definition mean_skipna :: "real option list \<Rightarrow> fl" where
  "mean_skipna vs =
     (let xs = dropna vs in if xs = [] then NaN else Fin (sum_list xs / of_nat (length xs)))"

definition min_skipna :: "real option list \<Rightarrow> fl" where
  "min_skipna vs = (case dropna vs of [] \<Rightarrow> NaN | x # xs \<Rightarrow> Fin (fold min xs x))"

definition max_skipna :: "real option list \<Rightarrow> fl" where
  "max_skipna vs = (case dropna vs of [] \<Rightarrow> NaN | x # xs \<Rightarrow> Fin (fold max xs x))"

text \<open>
  \<^verbatim>\<open>groupby(year_col)[metric_col].mean()\<close>: one group per distinct non-missing key, in
  ascending key order (so the later \<^verbatim>\<open>sort_values\<close>/\<^verbatim>\<open>sort_index\<close> changes nothing), each
  with the mean of the metric cells of its rows.
\<close>

definition group_values :: "key \<Rightarrow> key option list \<Rightarrow> real option list \<Rightarrow> real option list" where
  "group_values k ks vs = map snd (filter (\<lambda>(k', v). k' = Some k) (zip ks vs))"

definition groupby_mean :: "key option list \<Rightarrow> real option list \<Rightarrow> (key \<times> fl) list" where
  "groupby_mean ks vs =
     map (\<lambda>k. (k, mean_skipna (group_values k ks vs))) (sort (remdups (dropna ks)))"

text \<open>
  The block shared by \<^verbatim>\<open>get_price_trend\<close>, \<^verbatim>\<open>get_demand_trend\<close> and \<^verbatim>\<open>compare_areas\<close>:
  group, average, \<^verbatim>\<open>reset_index\<close>, then the integer labels and the rounded means.
  Averaging a text column raises TypeError; \<^verbatim>\<open>reset_index\<close> raises ValueError when the
  year column and the metric column are the same column.
\<close>

definition year_means :: "dataframe \<Rightarrow> string \<Rightarrow> string \<Rightarrow> error + (int list \<times> fl list)" where
  "year_means filtered year_col metric_col =
     (case map_of filtered year_col of
        None \<Rightarrow> Inl KeyError
      | Some ycol \<Rightarrow>
          (case map_of filtered metric_col of
             None \<Rightarrow> Inl KeyError
           | Some (TextCol _) \<Rightarrow> Inl TypeError
           | Some (NumCol vs) \<Rightarrow>
               if year_col = metric_col then Inl ValueError
               else
                 (let trend = groupby_mean (keys_of ycol) vs
                  in case map_err py_int (map fst trend) of
                       Inl e \<Rightarrow> Inl e
                     | Inr years \<Rightarrow> Inr (years, map (\<lambda>(y, v). round2 v) trend))))"




record comparison =
  labels :: "int list"
  datasets :: "(string \<times> fl list) list"
  title :: string

text \<open>
  The \<^verbatim>\<open>for area in areas\<close> loop of \<^verbatim>\<open>compare_areas\<close>; the state is the set
  \<^verbatim>\<open>all_years\<close> and the list \<^verbatim>\<open>result['datasets']\<close>.
\<close>

fun compare_loop ::
  "dataframe \<Rightarrow> string \<Rightarrow> string \<Rightarrow> string list \<Rightarrow> int set \<times> (string \<times> fl list) list
     \<Rightarrow> error + (int set \<times> (string \<times> fl list) list)" where
  "compare_loop df year_col metric_col [] st = Inr st"
| "compare_loop df year_col metric_col (area # rest) (all_years, ds) =
     (case filter_by_area df area of
        Inl e \<Rightarrow> Inl e
      | Inr filtered \<Rightarrow>
          if \<not> df_empty filtered then
            (case year_means filtered year_col metric_col of
               Inl e \<Rightarrow> Inl e
             | Inr (years, vals) \<Rightarrow>
                 compare_loop df year_col metric_col rest
                   (all_years \<union> set years, ds @ [(area, vals)]))
          else compare_loop df year_col metric_col rest (all_years, ds))"

definition compare_areas :: "dataframe \<Rightarrow> string list \<Rightarrow> string \<Rightarrow> error + comparison" where
  "compare_areas df areas metric =
     (let result = \<lparr>labels = [], datasets = [], title = capitalize metric @ '' Comparison''\<rparr>;
          year_col = find (\<lambda>col. contains ''year'' (lower col)) (column_names df);
          metric_col = find (\<lambda>col. contains (lower metric) (lower col)) (column_names df)
      in case (year_col, metric_col) of
           (Some yc, Some mc) \<Rightarrow>
             if yc = [] \<or> mc = [] then Inr result
             else
               (case compare_loop df yc mc areas ({}, []) of
                  Inl e \<Rightarrow> Inl e
                | Inr (all_years, ds) \<Rightarrow>
                    Inr (result\<lparr>datasets := ds, labels := sorted_list_of_set all_years\<rparr>))
         | _ \<Rightarrow> Inr result)"

section \<open>Summary statistics\<close>

text \<open>
  The dictionary returned by \<^verbatim>\<open>get_summary_stats\<close>: every key is optional, a key that
  is not set is \<open>None\<close>.
\<close>

record stats =
  error :: "string option"
  area :: "string option"
  total_records :: "nat option"
  avg_price :: "fl option"
  min_price :: "fl option"
  max_price :: "fl option"
  price_growth_pct :: "fl option"
  years_analyzed :: "string option"
  avg_demand :: "fl option"
  min_demand :: "fl option"
  max_demand :: "fl option"
  avg_size :: "fl option"

definition no_keys :: stats where
  "no_keys = \<lparr>error = None, area = None, total_records = None, avg_price = None,
     min_price = None, max_price = None, price_growth_pct = None, years_analyzed = None,
     avg_demand = None, min_demand = None, max_demand = None, avg_size = None\<rparr>"

definition bind_err :: "error + 'a \<Rightarrow> ('a \<Rightarrow> error + 'b) \<Rightarrow> error + 'b" where
  "bind_err m f = (case m of Inl e \<Rightarrow> Inl e | Inr x \<Rightarrow> f x)"

text \<open>Decimal rendering of an integer, as in an f-string.\<close>

definition digit_char :: "nat \<Rightarrow> char" where
  "digit_char d = ''0123456789'' ! d"

fun show_nat :: "nat \<Rightarrow> string" where
  "show_nat n =
     (if n < 10 then [digit_char n] else show_nat (n div 10) @ [digit_char (n mod 10)])"

declare show_nat.simps [simp del]

definition show_int :: "int \<Rightarrow> string" where
  "show_int i = (if i < 0 then CHR ''-'' # show_nat (nat (- i)) else show_nat (nat i))"

text \<open>A numeric column reduced by \<open>f\<close>; pandas raises TypeError on a text column.\<close>

definition col_reduce :: "(real option list \<Rightarrow> fl) \<Rightarrow> dataframe \<Rightarrow> string \<Rightarrow> error + fl" where
  "col_reduce f filtered col =
     (case map_of filtered col of
        None \<Rightarrow> Inl KeyError
      | Some (TextCol _) \<Rightarrow> Inl TypeError
      | Some (NumCol vs) \<Rightarrow> Inr (f vs))"

text \<open>
  Lines 150-156: the per-year means of the price in ascending year order, and from
  the first and the last of them the growth and the year range.
\<close>

definition growth_pct :: "fl \<Rightarrow> fl \<Rightarrow> fl" where
  "growth_pct first_mean last_mean =
     fl_mul (fl_div (fl_sub last_mean first_mean) first_mean) (Fin 100)"

definition price_growth :: "dataframe \<Rightarrow> string \<Rightarrow> string \<Rightarrow> stats \<Rightarrow> error + stats" where
  "price_growth filtered year_col price_col st =
     (case map_of filtered year_col of
        None \<Rightarrow> Inl KeyError
      | Some ycol \<Rightarrow>
          (case map_of filtered price_col of
             None \<Rightarrow> Inl KeyError
           | Some (TextCol _) \<Rightarrow> Inl TypeError
           | Some (NumCol vs) \<Rightarrow>
               (let yearly = groupby_mean (keys_of ycol) vs
                in if length yearly > 1 then
                     bind_err (py_int (fst (hd yearly))) (\<lambda>y0.
                     bind_err (py_int (fst (last yearly))) (\<lambda>y1.
                       Inr (st\<lparr>price_growth_pct :=
                                 Some (growth_pct (snd (hd yearly)) (snd (last yearly))),
                               years_analyzed := Some (show_int y0 @ ''-'' @ show_int y1)\<rparr>)))
                   else Inr st)))"

definition price_stats ::
  "dataframe \<Rightarrow> string option \<Rightarrow> string option \<Rightarrow> stats \<Rightarrow> error + stats" where
  "price_stats filtered price_col year_col st =
     (case price_col of
        None \<Rightarrow> Inr st
      | Some pc \<Rightarrow>
          bind_err (col_reduce mean_skipna filtered pc) (\<lambda>a.
          bind_err (col_reduce min_skipna filtered pc) (\<lambda>lo.
          bind_err (col_reduce max_skipna filtered pc) (\<lambda>hi.
            (let st' = st\<lparr>avg_price := Some a, min_price := Some lo, max_price := Some hi\<rparr>
             in case year_col of
                  None \<Rightarrow> Inr st'
                | Some yc \<Rightarrow> price_growth filtered yc pc st')))))"

definition demand_stats :: "dataframe \<Rightarrow> string option \<Rightarrow> stats \<Rightarrow> error + stats" where
  "demand_stats filtered demand_col st =
     (case demand_col of
        None \<Rightarrow> Inr st
      | Some dc \<Rightarrow>
          bind_err (col_reduce mean_skipna filtered dc) (\<lambda>a.
          bind_err (col_reduce min_skipna filtered dc) (\<lambda>lo.
          bind_err (col_reduce max_skipna filtered dc) (\<lambda>hi.
            Inr (st\<lparr>avg_demand := Some a, min_demand := Some lo, max_demand := Some hi\<rparr>)))))"

definition size_stats :: "dataframe \<Rightarrow> string option \<Rightarrow> stats \<Rightarrow> error + stats" where
  "size_stats filtered size_col st =
     (case size_col of
        None \<Rightarrow> Inr st
      | Some sc \<Rightarrow>
          bind_err (col_reduce mean_skipna filtered sc) (\<lambda>a. Inr (st\<lparr>avg_size := Some a\<rparr>)))"

text \<open>
  The size column of line 141. Python reads the condition as
  \<^verbatim>\<open>'size' in col or ('area' in col and col != area_column)\<close>.
\<close>

definition find_size_col :: "dataframe \<Rightarrow> string list \<Rightarrow> string option" where
  "find_size_col df cols =
     find (\<lambda>col. contains ''size'' (lower col)
                \<or> (contains ''area'' (lower col) \<and> col \<noteq> get_area_column df)) cols"

definition get_summary_stats :: "dataframe \<Rightarrow> string \<Rightarrow> error + stats" where
  "get_summary_stats df a =
     (case filter_by_area df a of
        Inl e \<Rightarrow> Inl e
      | Inr filtered \<Rightarrow>
          if df_empty filtered then Inr (no_keys\<lparr>error := Some (''No data found for '' @ a)\<rparr>)
          else
            (let st = no_keys\<lparr>area := Some a, total_records := Some (nrows filtered)\<rparr>;
                 cols = column_names filtered;
                 price_col = find (\<lambda>col. contains ''price'' (lower col)) cols;
                 demand_col = find (\<lambda>col. contains ''demand'' (lower col)) cols;
                 size_col = find_size_col df cols;
                 year_col = find (\<lambda>col. contains ''year'' (lower col)) cols
             in bind_err (price_stats filtered price_col year_col st) (\<lambda>st1.
                bind_err (demand_stats filtered demand_col st1) (\<lambda>st2.
                  size_stats filtered size_col st2))))"

section \<open>Narrative generator\<close>

text \<open>
  The narrative is a sequence of pieces whose renderings are concatenated: literal
  text (UTF-8 bytes), and floats under a Python format specification, whose digits
  are produced by Python's float formatting.
\<close>

datatype piece = Text string | Float string fl

definition utf8 :: "nat list \<Rightarrow> string" where
  "utf8 bs = map char_of bs"

definition nl :: string where
  "nl = utf8 [10]"

definition bullet :: string where
  "bullet = utf8 [0xE2, 0x80, 0xA2]"





definition emoji_up :: string where
  "emoji_up = utf8 [0xF0, 0x9F, 0x93, 0x88]"



definition emoji_fire :: string where
  "emoji_fire = utf8 [0xF0, 0x9F, 0x94, 0xA5]"

definition emoji_bolt :: string where
  "emoji_bolt = utf8 [0xE2, 0x9A, 0xA1]"

definition emoji_sleep :: string where
  "emoji_sleep = utf8 [0xF0, 0x9F, 0x92, 0xA4]"

definition emoji_bulb :: string where
  "emoji_bulb = utf8 [0xF0, 0x9F, 0x92, 0xA1]"

definition emoji_check :: string where
  "emoji_check = utf8 [0xE2, 0x9C, 0x85]"

definition emoji_warning :: string where
  "emoji_warning = utf8 [0xE2, 0x9A, 0xA0, 0xEF, 0xB8, 0x8F]"

text \<open>Line 219 and line 220: the demand tier and its emoji.\<close>

definition demand_level :: "fl \<Rightarrow> string" where
  "demand_level d = (if fl_gt d 70 then ''High'' else if fl_gt d 40 then ''Moderate'' else ''Low'')"

definition demand_emoji :: "fl \<Rightarrow> string" where
  "demand_emoji d = (if fl_gt d 70 then emoji_fire else if fl_gt d 40 then emoji_bolt else emoji_sleep)"


definition trend_word :: "fl \<Rightarrow> string" where
  "trend_word g =
     (if fl_gt g 0 then ''increased'' else if fl_lt g 0 then ''decreased'' else ''remained stable'')"

text \<open>Lines 232-238: the framing of the growth in the insights section.\<close>

datatype framing = Strong | Steady | Decline

definition growth_framing :: "fl \<Rightarrow> framing" where
  "growth_framing g = (if fl_gt g 5 then Strong else if fl_gt g 0 then Steady else Decline)"

definition growth_insight :: "string \<Rightarrow> fl \<Rightarrow> piece list" where
  "growth_insight a g =
     (case growth_framing g of
        Strong \<Rightarrow>
          [Text (emoji_check @ '' **'' @ a @ ''** shows strong growth potential with ''),
           Float ''.1f'' g, Text (''% price appreciation.'' @ nl)]
      | Steady \<Rightarrow>
          [Text (emoji_check @ '' **'' @ a @ ''** shows steady growth with ''),
           Float ''.1f'' g, Text (''% price increase.'' @ nl)]
      | Decline \<Rightarrow>
          [Text (emoji_warning @ '' **'' @ a @ ''** has experienced a price decline of ''),
           Float ''.1f'' (fl_abs g), Text (''%.'' @ nl)])"

definition demand_insight :: "fl \<Rightarrow> piece list" where
  "demand_insight d =
     (if fl_gt d 70 then
        [Text (emoji_fire @ '' High demand indicates strong market activity and investment interest.'' @ nl)]
      else if fl_gt d 40 then
        [Text (emoji_bolt @ '' Moderate demand suggests stable market conditions.'' @ nl)]
      else [])"

text \<open>A subscript \<^verbatim>\<open>stats[k]\<close> raises KeyError when the key is not set.\<close>

definition subscript :: "'a option \<Rightarrow> error + 'a" where
  "subscript v = (case v of None \<Rightarrow> Inl KeyError | Some x \<Rightarrow> Inr x)"




definition demand_section :: "stats \<Rightarrow> error + piece list" where
  "demand_section st =
     (case avg_demand st of
        None \<Rightarrow> Inr []
      | Some d \<Rightarrow>
          bind_err (subscript (min_demand st)) (\<lambda>lo.
          bind_err (subscript (max_demand st)) (\<lambda>hi.
            Inr [Text (''## '' @ emoji_up @ '' Demand Analysis'' @ nl),
                 Text (bullet @ '' **Demand Level:** '' @ demand_emoji d @ '' '' @ demand_level d
                       @ '' (Index: ''),
                 Float ''.2f'' d, Text ('')'' @ nl),
                 Text (bullet @ '' **Demand Range:** ''), Float ''.2f'' lo, Text '' - '',
                 Float ''.2f'' hi, Text (nl @ nl)])))"


definition insights :: "string \<Rightarrow> stats \<Rightarrow> piece list" where
  "insights a st =
     [Text (''## '' @ emoji_bulb @ '' Key Insights'' @ nl)]
     @ (case price_growth_pct st of None \<Rightarrow> [] | Some g \<Rightarrow> growth_insight a g)
     @ (case avg_demand st of None \<Rightarrow> [] | Some d \<Rightarrow> demand_insight d)"


section \<open>Query interpreter (chatbot/views.py)\<close>

datatype intent = Analysis | Compare | Demand | Price





section \<open>Rows of a data frame\<close>







section \<open>Notions used to state the results\<close>


text \<open>The areas of a comparison that have at least one row, in the order given.\<close>

definition has_rows :: "dataframe \<Rightarrow> string \<Rightarrow> bool" where
  "has_rows df a = (case filter_by_area df a of Inr f \<Rightarrow> \<not> df_empty f | Inl e \<Rightarrow> False)"

text \<open>
  The distinct non-missing year cells among the rows of an area, and the integer
  years they stand for.
\<close>

definition area_year_keys :: "dataframe \<Rightarrow> string \<Rightarrow> string \<Rightarrow> key set" where
  "area_year_keys df year_col a =
     (case filter_by_area df a of
        Inr f \<Rightarrow> (case map_of f year_col of Some c \<Rightarrow> set (dropna (keys_of c)) | None \<Rightarrow> {})
      | Inl e \<Rightarrow> {})"

definition area_years :: "dataframe \<Rightarrow> string \<Rightarrow> string \<Rightarrow> int set" where
  "area_years df year_col a = {y. \<exists>k \<in> area_year_keys df year_col a. py_int k = Inr y}"

text \<open>The labels and the series that the comparison loop appends for one area.\<close>

definition area_trend :: "dataframe \<Rightarrow> string \<Rightarrow> string \<Rightarrow> string \<Rightarrow> int list \<times> fl list" where
  "area_trend df yc mc a =
     (case filter_by_area df a of
        Inr f \<Rightarrow> (case year_means f yc mc of Inr r \<Rightarrow> r | Inl e \<Rightarrow> ([], []))
      | Inl e \<Rightarrow> ([], []))"

section \<open>Example frames\<close>

definition six_areas :: dataframe where
  "six_areas =
     [(''area'', TextCol [Some ''Wakad'', Some ''Aundh'', Some ''Baner'', Some ''Kothrud'',
                          Some ''Hadapsar'', Some ''Pimpri'', Some ''Aundh'']),
      (''price'', NumCol [Some 1, Some 2, Some 3, Some 4, Some 5, Some 6, Some 7])]"

definition location_and_area :: dataframe where
  "location_and_area =
     [(''location'', TextCol [Some ''Wakad'']), (''area'', NumCol [Some 900])]"

definition area_size_only :: dataframe where
  "area_size_only = [(''area_size'', TextCol [Some ''Wakad''])]"


definition two_years :: dataframe where
  "two_years =
     [(''area'', TextCol [Some ''Wakad'', Some ''Wakad'', Some ''Wakad'', Some ''Aundh'']),
      (''year'', NumCol [Some 2021, Some 2020, Some 2021, Some 2020]),
      (''price'', NumCol [Some 100, Some 100, Some 120, Some 50])]"

definition disjoint_years :: dataframe where
  "disjoint_years =
     [(''area'', TextCol [Some ''Wakad'', Some ''Aundh'', Some ''Wakad'', Some ''Aundh'']),
      (''year'', NumCol [Some 2021, Some 2019, Some 2020, Some 2019]),
      (''price'', NumCol [Some 100, Some 50, Some 90, Some (101 / 8)]),
      (''demand'', NumCol [Some 70, Some 1, Some 40, Some (1 / 8)])]"

definition flat_prices :: dataframe where
  "flat_prices =
     [(''area'', TextCol [Some ''Wakad'', Some ''Wakad'']),
      (''year'', NumCol [Some 2020, Some 2021]),
      (''price'', NumCol [Some 100, Some 100])]"

section \<open>Theorems\<close>



subsection \<open>Narrative tiers\<close>

lemma demand_section_level:
  assumes "avg_demand st = Some d" "min_demand st = Some lo" "max_demand st = Some hi"
  shows "\<exists>pre post. demand_section st = Inr (pre @
           Text (bullet @ '' **Demand Level:** '' @ demand_emoji d @ '' '' @ demand_level d
                 @ '' (Index: '') # post)"
proof -
  have "demand_section st =
      Inr ([Text (''## '' @ emoji_up @ '' Demand Analysis'' @ nl)] @
           Text (bullet @ '' **Demand Level:** '' @ demand_emoji d @ '' '' @ demand_level d
                 @ '' (Index: '') #
           [Float ''.2f'' d, Text ('')'' @ nl),
            Text (bullet @ '' **Demand Range:** ''), Float ''.2f'' lo, Text '' - '',
            Float ''.2f'' hi, Text (nl @ nl)])"
    using assms by (simp add: demand_section_def bind_err_def subscript_def)
  then show ?thesis by blast
qed

text \<open>
  C1 (as amended). The demand level of the demand section is decided by strict
  comparisons: an average demand index above 70 is "High", one above 40 and at most
  70 is "Moderate", and one of at most 40 is "Low".
\<close>

theorem demand_level_strict_tiers:
  "demand_level (Fin d) =
     (if 70 < d then ''High'' else if 40 < d then ''Moderate'' else ''Low'')"
  by (simp add: demand_level_def)

theorem demand_level_strict_tiers_witness:
  "demand_level (Fin 55) = ''Moderate''"
  using demand_level_strict_tiers [of 55] by simp

text \<open>
  C1 as stated fails at both boundaries: the index 70 is "Moderate", not "High", and
  the index 40 is "Low", not "Moderate".
\<close>

theorem demand_level_boundary_counterexample:
  "demand_level (Fin 70) \<noteq> ''High'' \<and> demand_level (Fin 70) = ''Moderate''
   \<and> demand_level (Fin 40) \<noteq> ''Moderate'' \<and> demand_level (Fin 40) = ''Low''"
  by (simp add: demand_level_def)

subsection \<open>Intent classification\<close>



subsection \<open>Column roles\<close>

text \<open>
  C6 (as amended). The area column is never chosen as the size column through the
  "area" token: a size column whose name does not contain "size" contains "area" and
  is not the area column.
\<close>

theorem size_col_by_area_token:
  assumes "find_size_col df cols = Some c" "\<not> contains ''size'' (lower c)"
  shows "c \<noteq> get_area_column df \<and> contains ''area'' (lower c)"
  using assms by (auto simp: find_size_col_def find_Some_iff)

theorem size_col_by_area_token_witness:
  "find_size_col location_and_area (column_names location_and_area) = Some ''area''
   \<and> \<not> contains ''size'' (lower ''area'')
   \<and> ''area'' \<noteq> get_area_column location_and_area"
proof -
  have a: "find_size_col location_and_area (column_names location_and_area) = Some ''area''"
    by (simp add: location_and_area_def get_area_column_def area_columns_def column_names_def
        find_size_col_def lower_def lower_char_def set_bit5_def)
  have b: "\<not> contains ''size'' (lower ''area'')"
    by (simp add: lower_def lower_char_def set_bit5_def)
  from size_col_by_area_token [OF a b] a b show ?thesis by simp
qed

text \<open>
  C6 as stated fails: a column whose name contains both "area" and "size" is the area
  column and the size column at once.
\<close>

theorem size_col_double_assigned_counterexample:
  "get_area_column area_size_only = ''area_size''
   \<and> find_size_col area_size_only (column_names area_size_only) = Some ''area_size''"
  by (simp add: area_size_only_def get_area_column_def area_columns_def column_names_def
      find_size_col_def lower_def lower_char_def set_bit5_def)

subsection \<open>The data-absent outcome\<close>






subsection \<open>Comparison without a year or metric column\<close>

text \<open>
  C9. If no column name contains "year", or none contains the lower-cased metric
  name, \<^verbatim>\<open>compare_areas\<close> returns normally with no labels, no datasets and the
  comparison title.
\<close>

theorem compare_areas_unresolved:
  assumes "\<not> (\<exists>c \<in> set (column_names df). contains ''year'' (lower c))
           \<or> \<not> (\<exists>c \<in> set (column_names df). contains (lower metric) (lower c))"
  shows "compare_areas df areas metric =
           Inr \<lparr>labels = [], datasets = [], title = capitalize metric @ '' Comparison''\<rparr>"
proof -
  from assms have "find (\<lambda>col. contains ''year'' (lower col)) (column_names df) = None
      \<or> find (\<lambda>col. contains (lower metric) (lower col)) (column_names df) = None"
    by (auto simp: find_None_iff)
  then show ?thesis
    by (auto simp: compare_areas_def Let_def split: option.splits)
qed

theorem compare_areas_unresolved_witness:
  "\<not> (\<exists>c \<in> set (column_names six_areas). contains ''year'' (lower c))
   \<and> compare_areas six_areas [''Wakad'', ''Aundh''] ''price''
       = Inr \<lparr>labels = [], datasets = [], title = ''Price Comparison''\<rparr>"
  using compare_areas_unresolved [of six_areas "''price''" "[''Wakad'', ''Aundh'']"]
  by (simp add: six_areas_def column_names_def lower_def lower_char_def upper_char_def set_bit5_def)

subsection \<open>Filtering by area\<close>







lemma map_of_select_rows: "map_of (select_rows bs df) k = map_option (select_col bs) (map_of df k)"
  unfolding select_rows_def by (induction df) auto



















subsection \<open>Trends and comparisons\<close>

lemma map_err_Inr:
  "map_err f xs = Inr ys \<Longrightarrow> length ys = length xs \<and> (\<forall>i < length xs. f (xs ! i) = Inr (ys ! i))"
proof (induction xs arbitrary: ys)
  case Nil then show ?case by simp
next
  case (Cons x xs)
  then show ?case
    by (auto split: sum.splits simp: nth_Cons split: nat.splits)
qed

lemma map_err_set:
  assumes "map_err f xs = Inr ys"
  shows "set ys = {y. \<exists>x \<in> set xs. f x = Inr y}"
  using assms
proof (induction xs arbitrary: ys)
  case Nil then show ?case by simp
next
  case (Cons x xs)
  then show ?case by (auto split: sum.splits)
qed

lemma year_means_Inr:
  assumes "year_means f yc mc = Inr (ys, vs)"
  shows "\<exists>ycol ms. map_of f yc = Some ycol \<and> map_of f mc = Some (NumCol ms)
     \<and> map_err py_int (sort (remdups (dropna (keys_of ycol)))) = Inr ys
     \<and> vs = map (\<lambda>k. round2 (mean_skipna (group_values k (keys_of ycol) ms)))
              (sort (remdups (dropna (keys_of ycol))))"
  using assms
  by (auto simp: year_means_def Let_def groupby_mean_def comp_def
      split: option.splits column.splits if_splits sum.splits)



lemma year_means_length:
  assumes "year_means f yc mc = Inr (ys, vs)" "map_of f yc = Some ycol"
  shows "length vs = card (set (dropna (keys_of ycol)))" "set ys = {y. \<exists>k \<in> set (dropna (keys_of ycol)). py_int k = Inr y}"
  using year_means_Inr[OF assms(1)] assms(2)
  by (auto simp: length_remdups_card_conv dest!: map_err_set)


lemma compare_loop_Inr:
  assumes "compare_loop df yc mc areas (S0, ds0) = Inr (S, ds)"
  shows "ds = ds0 @ map (\<lambda>a. (a, snd (area_trend df yc mc a))) (filter (has_rows df) areas)
       \<and> S = S0 \<union> (\<Union>a \<in> set (filter (has_rows df) areas). set (fst (area_trend df yc mc a)))
       \<and> (\<forall>a \<in> set (filter (has_rows df) areas). \<exists>f. filter_by_area df a = Inr f \<and> \<not> df_empty f
              \<and> year_means f yc mc = Inr (area_trend df yc mc a))"
  using assms
proof (induction areas arbitrary: S0 ds0)
  case Nil
  then show ?case by simp
next
  case (Cons a rest)
  from Cons.prems obtain f where f: "filter_by_area df a = Inr f"
    by (auto split: sum.splits)
  show ?case
  proof (cases "df_empty f")
    case True
    with f Cons.prems have "compare_loop df yc mc rest (S0, ds0) = Inr (S, ds)" by simp
    from Cons.IH[OF this] True f show ?thesis by (simp add: has_rows_def)
  next
    case False
    with f Cons.prems obtain ys vs where ym: "year_means f yc mc = Inr (ys, vs)"
      and rest: "compare_loop df yc mc rest (S0 \<union> set ys, ds0 @ [(a, vs)]) = Inr (S, ds)"
      by (auto split: sum.splits)
    have at: "area_trend df yc mc a = (ys, vs)" using f ym by (simp add: area_trend_def)
    have hr: "has_rows df a" using f False by (simp add: has_rows_def)
    from Cons.IH[OF rest] at hr f False ym show ?thesis by auto
  qed
qed





lemma disjoint_years_compare:
  "compare_areas disjoint_years [''Wakad'', ''Mumbai'', ''Aundh''] ''price''
   = Inr \<lparr>labels = [2019, 2020, 2021],
          datasets = [(''Wakad'', [Fin 90, Fin 100]), (''Aundh'', [Fin (3131 / 100)])],
          title = ''Price Comparison''\<rparr>"
  by (simp add: disjoint_years_def compare_areas_def column_names_def lower_def lower_char_def
      upper_char_def set_bit5_def filter_by_area_def area_columns_def area_mask_def select_rows_def
      select_def df_empty_def nrows_def year_means_def groupby_mean_def dropna_def group_values_def
      mean_skipna_def trunc_def round_half_even_def Let_def sorted_list_of_set_sort_remdups
      set_append [symmetric] del: set_append)



lemma map_err_total:
  assumes "\<forall>x \<in> set xs. \<exists>y. f x = Inr y"
  shows "\<exists>ys. map_err f xs = Inr ys"
  using assms by (induction xs) (auto split: sum.splits)

lemma year_means_total:
  assumes "map_of f yc = Some (NumCol ys)" "map_of f mc = Some (NumCol ms)" "yc \<noteq> mc"
  shows "\<exists>r. year_means f yc mc = Inr r"
proof -
  have "\<forall>k \<in> set (map fst (groupby_mean (keys_of (NumCol ys)) ms)). \<exists>y. py_int k = Inr y"
    by (auto simp: groupby_mean_def dropna_def split: option.splits)
  from map_err_total[OF this] obtain l where
    "map_err py_int (map fst (groupby_mean (keys_of (NumCol ys)) ms)) = Inr l" by blast
  then show ?thesis using assms by (simp add: year_means_def Let_def del: keys_of.simps)
qed

lemma filter_by_area_total:
  assumes "\<forall>ac rest. area_columns df = ac # rest \<longrightarrow> (\<exists>vs. map_of df ac = Some (TextCol vs))"
  shows "filter_by_area df a = Inr [] \<or> (\<exists>bs. filter_by_area df a = Inr (select_rows bs df))"
  using assms by (cases "area_columns df") (auto simp: filter_by_area_def)

lemma compare_loop_total:
  assumes ar: "\<forall>ac rest. area_columns df = ac # rest \<longrightarrow> (\<exists>vs. map_of df ac = Some (TextCol vs))"
    and y: "map_of df yc = Some (NumCol ys)" and m: "map_of df mc = Some (NumCol ms)" and ne: "yc \<noteq> mc"
  shows "\<exists>r. compare_loop df yc mc areas st = Inr r"
proof (induction areas arbitrary: st)
  case Nil then show ?case by simp
next
  case (Cons a rest)
  obtain S ds where st: "st = (S, ds)" by (cases st)
  from filter_by_area_total[OF ar, of a]
  consider "filter_by_area df a = Inr []" | bs where "filter_by_area df a = Inr (select_rows bs df)"
    by blast
  then show ?case
  proof cases
    case 1
    then show ?thesis using Cons.IH st by (simp add: df_empty_def)
  next
    case (2 bs)
    have "\<exists>r. year_means (select_rows bs df) yc mc = Inr r"
      using y m ne by (intro year_means_total[where ys="select bs ys" and ms="select bs ms"])
        (simp_all add: map_of_select_rows)
    then obtain l v where "year_means (select_rows bs df) yc mc = Inr (l, v)" by auto
    then show ?thesis using 2 Cons.IH st by (cases "df_empty (select_rows bs df)") auto
  qed
qed

lemma compare_areas_total:
  assumes ar: "\<forall>ac rest. area_columns df = ac # rest \<longrightarrow> (\<exists>vs. map_of df ac = Some (TextCol vs))"
    and yc: "find (\<lambda>col. contains ''year'' (lower col)) (column_names df) = Some yc"
    and mc: "find (\<lambda>col. contains (lower metric) (lower col)) (column_names df) = Some mc"
    and y: "map_of df yc = Some (NumCol ys)" and m: "map_of df mc = Some (NumCol ms)" and ne: "yc \<noteq> mc"
  shows "\<exists>res. compare_areas df areas metric = Inr res"
proof -
  from compare_loop_total[OF ar y m ne, of areas "({}, [])"]
  obtain S ds where "compare_loop df yc mc areas ({}, []) = Inr (S, ds)" by auto
  then show ?thesis using yc mc by (simp add: compare_areas_def Let_def)
qed

lemma compare_areas_series:
  assumes c: "compare_areas df areas metric = Inr res"
    and yc: "find (\<lambda>col. contains ''year'' (lower col)) (column_names df) = Some yc"
    and mc: "find (\<lambda>col. contains (lower metric) (lower col)) (column_names df) = Some mc"
    and ne: "mc \<noteq> []"
  shows "map fst (datasets res) = filter (has_rows df) areas
    \<and> sorted (labels res) \<and> distinct (labels res)
    \<and> set (labels res) = (\<Union>a \<in> set (filter (has_rows df) areas). area_years df yc a)
    \<and> (\<forall>(a, vs) \<in> set (datasets res). length vs = card (area_year_keys df yc a))"
proof -
  from yc have "contains ''year'' (lower yc)" by (auto simp: find_Some_iff)
  then have yne: "yc \<noteq> []" by (auto simp: lower_def)
  from c yc mc ne yne obtain S ds where l: "compare_loop df yc mc areas ({}, []) = Inr (S, ds)"
      and d: "datasets res = ds" and lab: "labels res = sorted_list_of_set S"
    by (auto simp: compare_areas_def Let_def split: sum.splits prod.splits)
  let ?inc = "filter (has_rows df) areas"
  from compare_loop_Inr[OF l]
  have ds: "ds = map (\<lambda>a. (a, snd (area_trend df yc mc a))) ?inc"
    and S: "S = (\<Union>a \<in> set ?inc. set (fst (area_trend df yc mc a)))"
    and ym: "\<forall>a \<in> set ?inc. \<exists>f. filter_by_area df a = Inr f \<and> \<not> df_empty f
              \<and> year_means f yc mc = Inr (area_trend df yc mc a)"
    by auto
  have per: "set (fst (area_trend df yc mc a)) = area_years df yc a
      \<and> length (snd (area_trend df yc mc a)) = card (area_year_keys df yc a)"
    if "a \<in> set ?inc" for a
  proof -
    from ym that obtain f where f: "filter_by_area df a = Inr f"
      and y: "year_means f yc mc = Inr (fst (area_trend df yc mc a), snd (area_trend df yc mc a))"
      by auto
    from year_means_Inr[OF y] obtain ycol where ycol: "map_of f yc = Some ycol" by blast
    have k: "area_year_keys df yc a = set (dropna (keys_of ycol))"
      using f ycol by (simp add: area_year_keys_def)
    from year_means_length[OF y ycol] k show ?thesis by (simp add: area_years_def)
  qed
  have fin: "finite S" unfolding S by auto
  have "map fst (datasets res) = ?inc" unfolding d ds by (simp add: comp_def)
  moreover have "sorted (labels res)" "distinct (labels res)" unfolding lab by simp_all
  moreover have "set (labels res) = (\<Union>a \<in> set ?inc. area_years df yc a)"
    unfolding lab using fin S per by auto
  moreover have "\<forall>(a, vs) \<in> set (datasets res). length vs = card (area_year_keys df yc a)"
    unfolding d ds using per by auto
  ultimately show ?thesis by blast
qed


text \<open>
  C3. With the year and the metric column resolved, a comparison that returns has one
  dataset per area that has rows, in the order given (the other areas are skipped);
  its labels are sorted, free of duplicates and are exactly the years of those areas;
  and each series has one value per distinct year of its own area. On a frame with a
  text area column and numeric year and metric columns the comparison returns.
\<close>

theorem compare_areas_labels_and_series:
  assumes yc: "find (\<lambda>col. contains ''year'' (lower col)) (column_names df) = Some yc"
    and mc: "find (\<lambda>col. contains (lower metric) (lower col)) (column_names df) = Some mc"
    and ne: "mc \<noteq> []"
  shows "((\<forall>ac rest. area_columns df = ac # rest \<longrightarrow> (\<exists>vs. map_of df ac = Some (TextCol vs)))
          \<and> (\<exists>ys. map_of df yc = Some (NumCol ys)) \<and> (\<exists>ms. map_of df mc = Some (NumCol ms))
          \<and> yc \<noteq> mc
          \<longrightarrow> (\<exists>res. compare_areas df areas metric = Inr res))
    \<and> (\<forall>res. compare_areas df areas metric = Inr res \<longrightarrow>
          map fst (datasets res) = filter (has_rows df) areas
        \<and> sorted (labels res) \<and> distinct (labels res)
        \<and> set (labels res) = (\<Union>a \<in> set (filter (has_rows df) areas). area_years df yc a)
        \<and> (\<forall>(a, vs) \<in> set (datasets res). length vs = card (area_year_keys df yc a)))"
  using compare_areas_total [OF _ yc mc, of _ _ areas] compare_areas_series [OF _ yc mc ne, of areas]
  by blast

lemma disjoint_years_columns:
  "find (\<lambda>col. contains ''year'' (lower col)) (column_names disjoint_years) = Some ''year''"
  "find (\<lambda>col. contains (lower ''price'') (lower col)) (column_names disjoint_years) = Some ''price''"
  by (simp_all add: disjoint_years_def column_names_def lower_def lower_char_def set_bit5_def)

theorem compare_areas_labels_and_series_witness:
  "find (\<lambda>col. contains ''year'' (lower col)) (column_names disjoint_years) = Some ''year''
   \<and> find (\<lambda>col. contains (lower ''price'') (lower col)) (column_names disjoint_years) = Some ''price''
   \<and> compare_areas disjoint_years [''Wakad'', ''Mumbai'', ''Aundh''] ''price''
       = Inr \<lparr>labels = [2019, 2020, 2021],
              datasets = [(''Wakad'', [Fin 90, Fin 100]), (''Aundh'', [Fin (3131 / 100)])],
              title = ''Price Comparison''\<rparr>
   \<and> filter (has_rows disjoint_years) [''Wakad'', ''Mumbai'', ''Aundh''] = [''Wakad'', ''Aundh'']
   \<and> set [2019, 2020, 2021]
       = area_years disjoint_years ''year'' ''Wakad'' \<union> area_years disjoint_years ''year'' ''Aundh''
   \<and> card (area_year_keys disjoint_years ''year'' ''Aundh'') = 1"
proof -
  have ne: "''price'' \<noteq> []" by simp
  from compare_areas_labels_and_series
         [OF disjoint_years_columns ne, of "[''Wakad'', ''Mumbai'', ''Aundh'']"]
    disjoint_years_compare disjoint_years_columns
  show ?thesis by auto
qed

subsection \<open>Price growth\<close>

lemma demand_stats_keeps:
  assumes "demand_stats f dc st = Inr st'"
  shows "price_growth_pct st' = price_growth_pct st \<and> years_analyzed st' = years_analyzed st"
  using assms by (auto simp: demand_stats_def bind_err_def split: option.splits sum.splits)

lemma size_stats_keeps:
  assumes "size_stats f sc st = Inr st'"
  shows "price_growth_pct st' = price_growth_pct st \<and> years_analyzed st' = years_analyzed st"
  using assms by (auto simp: size_stats_def bind_err_def split: option.splits sum.splits)

lemma price_growth_Inr:
  assumes "price_growth f yc pc st = Inr st'"
    "price_growth_pct st = None" "years_analyzed st = None"
  shows "\<exists>ycol vs. map_of f yc = Some ycol \<and> map_of f pc = Some (NumCol vs) \<and>
     (let ks = keys_of ycol; years = sort (remdups (dropna ks));
          year_mean = (\<lambda>y. mean_skipna (group_values y ks vs))
      in (2 \<le> length years \<longrightarrow>
            price_growth_pct st' = Some (growth_pct (year_mean (hd years)) (year_mean (last years))))
       \<and> (length years < 2 \<longrightarrow> price_growth_pct st' = None \<and> years_analyzed st' = None))"
proof -
  from assms(1) obtain ycol vs where y: "map_of f yc = Some ycol" and p: "map_of f pc = Some (NumCol vs)"
    by (auto simp: price_growth_def split: option.splits column.splits)
  let ?years = "sort (remdups (dropna (keys_of ycol)))"
  let ?g = "\<lambda>k. (k, mean_skipna (group_values k (keys_of ycol) vs))"
  have gm: "groupby_mean (keys_of ycol) vs = map ?g ?years" by (simp add: groupby_mean_def)
  show ?thesis
  proof (cases "2 \<le> length ?years")
    case True
    have ne: "?years \<noteq> []"
    proof
      assume "?years = []"
      then have "length ?years = 0" by (simp only: list.size)
      with True show False by linarith
    qed
    have h: "snd (hd (map ?g ?years)) = mean_skipna (group_values (hd ?years) (keys_of ycol) vs)"
      using ne by (simp add: hd_map)
    have l: "snd (last (map ?g ?years)) = mean_skipna (group_values (last ?years) (keys_of ycol) vs)"
      using ne by (simp add: last_map)
    from assms(1) y p True have "price_growth_pct st' =
        Some (growth_pct (snd (hd (map ?g ?years))) (snd (last (map ?g ?years))))"
      by (auto simp: price_growth_def gm Let_def bind_err_def split: sum.splits if_splits)
    then show ?thesis using y p True h l by (simp add: Let_def)
  next
    case False
    with assms y p have "st' = st"
      by (auto simp: price_growth_def gm Let_def)
    then show ?thesis using y p False assms by (simp add: Let_def)
  qed
qed

lemma no_keys_growth [simp]: "price_growth_pct no_keys = None" "years_analyzed no_keys = None"
  by (simp_all add: no_keys_def)

lemma col_reduce_num: "map_of f col = Some (NumCol vs) \<Longrightarrow> col_reduce g f col = Inr (g vs)"
  by (simp add: col_reduce_def)

lemma py_int_num_keys:
  assumes "k \<in> set (map fst (groupby_mean (keys_of (NumCol ys)) vs))"
  shows "\<exists>y. py_int k = Inr y"
  using assms by (auto simp: groupby_mean_def dropna_def split: option.splits)

lemma price_growth_total:
  assumes "map_of f yc = Some (NumCol ys)" "map_of f pc = Some (NumCol vs)"
  shows "\<exists>st'. price_growth f yc pc st = Inr st'"
proof -
  let ?t = "groupby_mean (keys_of (NumCol ys)) vs"
  show ?thesis
  proof (cases "length ?t > 1")
    case True
    then have ne: "?t \<noteq> []" by auto
    then have "map fst ?t \<noteq> []" by simp
    then have "hd (map fst ?t) \<in> set (map fst ?t)" "last (map fst ?t) \<in> set (map fst ?t)"
      by (rule hd_in_set, rule last_in_set)
    then obtain y0 y1 where "py_int (hd (map fst ?t)) = Inr y0" "py_int (last (map fst ?t)) = Inr y1"
      using py_int_num_keys by blast
    then have "py_int (fst (hd ?t)) = Inr y0" "py_int (fst (last ?t)) = Inr y1"
      using ne by (simp_all add: hd_map last_map)
    then show ?thesis using assms True
      by (simp add: price_growth_def Let_def bind_err_def del: keys_of.simps)
  next
    case False
    then show ?thesis using assms by (simp add: price_growth_def Let_def del: keys_of.simps)
  qed
qed

lemma get_summary_stats_total:
  assumes f: "filter_by_area df a = Inr f"
    and num: "\<forall>col. (find (\<lambda>col. contains ''price'' (lower col)) (column_names f) = Some col
            \<or> find (\<lambda>col. contains ''demand'' (lower col)) (column_names f) = Some col
            \<or> find_size_col df (column_names f) = Some col
            \<or> find (\<lambda>col. contains ''year'' (lower col)) (column_names f) = Some col)
          \<longrightarrow> (\<exists>vs. map_of f col = Some (NumCol vs))"
  shows "\<exists>st. get_summary_stats df a = Inr st"
proof (cases "df_empty f")
  case True
  with f show ?thesis by (simp add: get_summary_stats_def)
next
  case False
  let ?cols = "column_names f"
  have p: "\<exists>st'. price_stats f (find (\<lambda>col. contains ''price'' (lower col)) ?cols)
             (find (\<lambda>col. contains ''year'' (lower col)) ?cols) st = Inr st'" for st
  proof (cases "find (\<lambda>col. contains ''price'' (lower col)) ?cols")
    case None then show ?thesis by (simp add: price_stats_def)
  next
    case (Some pc)
    with num obtain vs where vs: "map_of f pc = Some (NumCol vs)" by blast
    show ?thesis
    proof (cases "find (\<lambda>col. contains ''year'' (lower col)) ?cols")
      case None
      then show ?thesis using Some vs by (simp add: price_stats_def bind_err_def col_reduce_num)
    next
      case (Some yc)
      with num obtain ys where ys: "map_of f yc = Some (NumCol ys)" by blast
      from price_growth_total[OF ys vs] show ?thesis
        using \<open>find (\<lambda>col. contains ''price'' (lower col)) ?cols = Some pc\<close> Some vs
        by (simp add: price_stats_def bind_err_def col_reduce_num Let_def)
    qed
  qed
  have d: "\<exists>st'. demand_stats f (find (\<lambda>col. contains ''demand'' (lower col)) ?cols) st = Inr st'" for st
  proof (cases "find (\<lambda>col. contains ''demand'' (lower col)) ?cols")
    case None then show ?thesis by (simp add: demand_stats_def)
  next
    case (Some dc)
    with num obtain vs where "map_of f dc = Some (NumCol vs)" by blast
    then show ?thesis using Some by (simp add: demand_stats_def bind_err_def col_reduce_num)
  qed
  have s: "\<exists>st'. size_stats f (find_size_col df ?cols) st = Inr st'" for st
  proof (cases "find_size_col df ?cols")
    case None then show ?thesis by (simp add: size_stats_def)
  next
    case (Some sc)
    with num obtain vs where "map_of f sc = Some (NumCol vs)" by blast
    then show ?thesis using Some by (simp add: size_stats_def bind_err_def col_reduce_num)
  qed
  from p obtain st1 where st1: "price_stats f (find (\<lambda>col. contains ''price'' (lower col)) ?cols)
             (find (\<lambda>col. contains ''year'' (lower col)) ?cols)
             (no_keys\<lparr>area := Some a, total_records := Some (nrows f)\<rparr>) = Inr st1" by blast
  from d obtain st2 where st2: "demand_stats f (find (\<lambda>col. contains ''demand'' (lower col)) ?cols) st1 = Inr st2" by blast
  from s obtain st3 where st3: "size_stats f (find_size_col df ?cols) st2 = Inr st3" by blast
  show ?thesis using f False st1 st2 st3
    by (simp add: get_summary_stats_def Let_def bind_err_def)
qed

lemma summary_stats_growth:
  assumes f: "filter_by_area df a = Inr f" and ne: "\<not> df_empty f"
    and pc: "find (\<lambda>col. contains ''price'' (lower col)) (column_names f) = Some pc"
    and yc: "find (\<lambda>col. contains ''year'' (lower col)) (column_names f) = Some yc"
    and st: "get_summary_stats df a = Inr st"
  shows "\<exists>ycol vs. map_of f yc = Some ycol \<and> map_of f pc = Some (NumCol vs) \<and>
     (let ks = keys_of ycol; years = sort (remdups (dropna ks));
          year_mean = (\<lambda>y. mean_skipna (group_values y ks vs))
      in (2 \<le> length years \<longrightarrow>
            price_growth_pct st = Some (growth_pct (year_mean (hd years)) (year_mean (last years))))
       \<and> (length years < 2 \<longrightarrow> price_growth_pct st = None \<and> years_analyzed st = None))
     \<and> (\<forall>x y. x \<noteq> 0 \<longrightarrow> growth_pct (Fin x) (Fin y) = Fin ((y - x) / x * 100))"
proof -
  let ?s0 = "no_keys\<lparr>area := Some a, total_records := Some (nrows f)\<rparr>"
  from st f ne pc yc obtain st1 st2 where
    p: "price_stats f (Some pc) (Some yc) ?s0 = Inr st1"
    and d: "demand_stats f (find (\<lambda>col. contains ''demand'' (lower col)) (column_names f)) st1 = Inr st2"
    and s: "size_stats f (find_size_col df (column_names f)) st2 = Inr st"
    by (auto simp: get_summary_stats_def Let_def bind_err_def split: sum.splits)
  from p obtain av lo hi where
    g: "price_growth f yc pc (?s0\<lparr>avg_price := Some av, min_price := Some lo, max_price := Some hi\<rparr>) = Inr st1"
    by (auto simp: price_stats_def bind_err_def Let_def split: sum.splits)
  have k: "price_growth_pct st = price_growth_pct st1 \<and> years_analyzed st = years_analyzed st1"
    using demand_stats_keeps[OF d] size_stats_keeps[OF s] by simp
  from price_growth_Inr[OF g] k show ?thesis
    by (auto simp: Let_def growth_pct_def)
qed

text \<open>
  C5. When the rows of an area have a price and a year column, the statistics that
  \<^verbatim>\<open>get_summary_stats\<close> returns take the growth from the per-year means of the price in
  ascending year order: with at least two distinct years it is
  (last mean - first mean) / first mean * 100, with fewer the growth keys are not set.
  The statistics are returned whenever the columns chosen for the price, demand, size
  and year roles are numeric.
\<close>

theorem price_growth_from_year_means:
  assumes f: "filter_by_area df a = Inr f" and ne: "\<not> df_empty f"
    and pc: "find (\<lambda>col. contains ''price'' (lower col)) (column_names f) = Some pc"
    and yc: "find (\<lambda>col. contains ''year'' (lower col)) (column_names f) = Some yc"
  shows "((\<forall>col. (find (\<lambda>col. contains ''price'' (lower col)) (column_names f) = Some col
            \<or> find (\<lambda>col. contains ''demand'' (lower col)) (column_names f) = Some col
            \<or> find_size_col df (column_names f) = Some col
            \<or> find (\<lambda>col. contains ''year'' (lower col)) (column_names f) = Some col)
          \<longrightarrow> (\<exists>vs. map_of f col = Some (NumCol vs)))
         \<longrightarrow> (\<exists>st. get_summary_stats df a = Inr st))
    \<and> (\<forall>st. get_summary_stats df a = Inr st \<longrightarrow>
         (\<exists>ycol vs. map_of f yc = Some ycol \<and> map_of f pc = Some (NumCol vs) \<and>
           (let ks = keys_of ycol; years = sort (remdups (dropna ks));
                year_mean = (\<lambda>y. mean_skipna (group_values y ks vs))
            in (2 \<le> length years \<longrightarrow>
                  price_growth_pct st
                    = Some (growth_pct (year_mean (hd years)) (year_mean (last years))))
             \<and> (length years < 2 \<longrightarrow> price_growth_pct st = None \<and> years_analyzed st = None))))
    \<and> (\<forall>x y. x \<noteq> 0 \<longrightarrow> growth_pct (Fin x) (Fin y) = Fin ((y - x) / x * 100))"
proof (intro conjI allI impI)
  assume "\<forall>col. (find (\<lambda>col. contains ''price'' (lower col)) (column_names f) = Some col
            \<or> find (\<lambda>col. contains ''demand'' (lower col)) (column_names f) = Some col
            \<or> find_size_col df (column_names f) = Some col
            \<or> find (\<lambda>col. contains ''year'' (lower col)) (column_names f) = Some col)
          \<longrightarrow> (\<exists>vs. map_of f col = Some (NumCol vs))"
  with f show "\<exists>st. get_summary_stats df a = Inr st" by (rule get_summary_stats_total)
next
  fix st assume "get_summary_stats df a = Inr st"
  from summary_stats_growth [OF f ne pc yc this]
  show "\<exists>ycol vs. map_of f yc = Some ycol \<and> map_of f pc = Some (NumCol vs) \<and>
           (let ks = keys_of ycol; years = sort (remdups (dropna ks));
                year_mean = (\<lambda>y. mean_skipna (group_values y ks vs))
            in (2 \<le> length years \<longrightarrow>
                  price_growth_pct st
                    = Some (growth_pct (year_mean (hd years)) (year_mean (last years))))
             \<and> (length years < 2 \<longrightarrow> price_growth_pct st = None \<and> years_analyzed st = None))"
    by blast
next
  fix x y :: real assume "x \<noteq> 0"
  then show "growth_pct (Fin x) (Fin y) = Fin ((y - x) / x * 100)"
    by (simp add: growth_pct_def)
qed

lemma two_years_filter_wakad:
  "filter_by_area two_years ''Wakad'' = Inr
     [(''area'', TextCol [Some ''Wakad'', Some ''Wakad'', Some ''Wakad'']),
      (''year'', NumCol [Some 2021, Some 2020, Some 2021]),
      (''price'', NumCol [Some 100, Some 100, Some 120])]"
  by (simp add: two_years_def filter_by_area_def area_columns_def column_names_def lower_def
      lower_char_def set_bit5_def area_mask_def select_rows_def select_def)

lemma two_years_area_column: "get_area_column two_years = ''area''"
  by (simp add: two_years_def get_area_column_def area_columns_def column_names_def lower_def
      lower_char_def set_bit5_def)

lemma two_years_stats:
  "get_summary_stats two_years ''Wakad'' =
     Inr (no_keys\<lparr>area := Some ''Wakad'', total_records := Some 3,
                  avg_price := Some (Fin (320 / 3)), min_price := Some (Fin 100),
                  max_price := Some (Fin 120), price_growth_pct := Some (Fin 10),
                  years_analyzed := Some ''2020-2021''\<rparr>)"
  by (simp add: get_summary_stats_def two_years_filter_wakad two_years_area_column df_empty_def
      nrows_def column_names_def lower_def lower_char_def set_bit5_def Let_def price_stats_def
      bind_err_def col_reduce_def price_growth_def groupby_mean_def dropna_def group_values_def
      mean_skipna_def min_skipna_def max_skipna_def growth_pct_def trunc_def show_int_def
      show_nat.simps demand_stats_def size_stats_def find_size_col_def digit_char_def no_keys_def)

theorem price_growth_from_year_means_witness:
  "filter_by_area two_years ''Wakad'' = Inr
     [(''area'', TextCol [Some ''Wakad'', Some ''Wakad'', Some ''Wakad'']),
      (''year'', NumCol [Some 2021, Some 2020, Some 2021]),
      (''price'', NumCol [Some 100, Some 100, Some 120])]
   \<and> mean_skipna (group_values (KNum 2020) (keys_of (NumCol [Some 2021, Some 2020, Some 2021]))
                     [Some 100, Some 100, Some 120]) = Fin 100
   \<and> mean_skipna (group_values (KNum 2021) (keys_of (NumCol [Some 2021, Some 2020, Some 2021]))
                     [Some 100, Some 100, Some 120]) = Fin 110
   \<and> (\<exists>st. get_summary_stats two_years ''Wakad'' = Inr st
          \<and> price_growth_pct st = Some (Fin 10) \<and> years_analyzed st = Some ''2020-2021'')
   \<and> growth_pct (Fin 100) (Fin 110) = Fin 10"
proof -
  let ?f = "[(''area'', TextCol [Some ''Wakad'', Some ''Wakad'', Some ''Wakad'']),
      (''year'', NumCol [Some 2021, Some 2020, Some 2021]),
      (''price'', NumCol [Some 100, Some 100, Some (120::real)])]"
  have e: "\<not> df_empty ?f" by (simp add: df_empty_def nrows_def)
  have pc: "find (\<lambda>col. contains ''price'' (lower col)) (column_names ?f) = Some ''price''"
    by (simp add: column_names_def lower_def lower_char_def set_bit5_def)
  have yc: "find (\<lambda>col. contains ''year'' (lower col)) (column_names ?f) = Some ''year''"
    by (simp add: column_names_def lower_def lower_char_def set_bit5_def)
  have m: "mean_skipna (group_values (KNum 2020) (keys_of (NumCol [Some 2021, Some 2020, Some 2021]))
                     [Some 100, Some 100, Some 120]) = Fin 100"
     "mean_skipna (group_values (KNum 2021) (keys_of (NumCol [Some 2021, Some 2020, Some 2021]))
                     [Some 100, Some 100, Some 120]) = Fin 110"
    by (simp_all add: group_values_def mean_skipna_def dropna_def)
  from price_growth_from_year_means [OF two_years_filter_wakad e pc yc]
  have "growth_pct (Fin 100) (Fin 110) = Fin ((110 - 100) / 100 * 100)" by auto
  then show ?thesis using two_years_filter_wakad two_years_stats m by (simp add: no_keys_def)
qed

subsection \<open>Zero growth\<close>

lemma flat_prices_area_column: "get_area_column flat_prices = ''area''"
  by (simp add: flat_prices_def get_area_column_def area_columns_def column_names_def lower_def
      lower_char_def set_bit5_def)

lemma flat_prices_filter_wakad:
  "filter_by_area flat_prices ''Wakad'' = Inr
     [(''area'', TextCol [Some ''Wakad'', Some ''Wakad'']),
      (''year'', NumCol [Some 2020, Some 2021]),
      (''price'', NumCol [Some 100, Some 100])]"
  by (simp add: flat_prices_def filter_by_area_def area_columns_def column_names_def lower_def
      lower_char_def set_bit5_def area_mask_def select_rows_def select_def)

text \<open>
  C2. For an area whose price is the same in its first and its last year the growth
  is exactly 0; the insights section then frames it as a decline ("has experienced a
  price decline of"), while the price section of the same narrative calls the same
  growth "remained stable". A growth of exactly 5 is framed as steady.
\<close>

theorem growth_framing_zero_is_decline:
  "get_summary_stats flat_prices ''Wakad'' =
     Inr (no_keys\<lparr>area := Some ''Wakad'', total_records := Some 2,
                  avg_price := Some (Fin 100), min_price := Some (Fin 100),
                  max_price := Some (Fin 100), price_growth_pct := Some (Fin 0),
                  years_analyzed := Some ''2020-2021''\<rparr>)
   \<and> insights ''Wakad'' (no_keys\<lparr>area := Some ''Wakad'', total_records := Some 2,
                  avg_price := Some (Fin 100), min_price := Some (Fin 100),
                  max_price := Some (Fin 100), price_growth_pct := Some (Fin 0),
                  years_analyzed := Some ''2020-2021''\<rparr>) =
       [Text (''## '' @ emoji_bulb @ '' Key Insights'' @ nl),
        Text (emoji_warning @ '' **Wakad** has experienced a price decline of ''),
        Float ''.1f'' (Fin 0), Text (''%.'' @ nl)]
   \<and> growth_framing (Fin 0) = Decline
   \<and> trend_word (Fin 0) = ''remained stable''
   \<and> growth_framing (Fin 5) = Steady"
proof -
  have "get_summary_stats flat_prices ''Wakad'' =
     Inr (no_keys\<lparr>area := Some ''Wakad'', total_records := Some 2,
                  avg_price := Some (Fin 100), min_price := Some (Fin 100),
                  max_price := Some (Fin 100), price_growth_pct := Some (Fin 0),
                  years_analyzed := Some ''2020-2021''\<rparr>)"
    by (simp add: get_summary_stats_def flat_prices_filter_wakad flat_prices_area_column
        df_empty_def nrows_def column_names_def lower_def lower_char_def set_bit5_def Let_def
        price_stats_def bind_err_def col_reduce_def price_growth_def groupby_mean_def dropna_def
        group_values_def mean_skipna_def min_skipna_def max_skipna_def growth_pct_def trunc_def
        show_int_def show_nat.simps demand_stats_def size_stats_def find_size_col_def
        digit_char_def no_keys_def)
  moreover have "insights ''Wakad'' (no_keys\<lparr>area := Some ''Wakad'', total_records := Some 2,
                  avg_price := Some (Fin 100), min_price := Some (Fin 100),
                  max_price := Some (Fin 100), price_growth_pct := Some (Fin 0),
                  years_analyzed := Some ''2020-2021''\<rparr>) =
       [Text (''## '' @ emoji_bulb @ '' Key Insights'' @ nl),
        Text (emoji_warning @ '' **Wakad** has experienced a price decline of ''),
        Float ''.1f'' (Fin 0), Text (''%.'' @ nl)]"
    by (simp add: insights_def no_keys_def growth_insight_def growth_framing_def)
  ultimately show ?thesis by (simp add: growth_framing_def trend_word_def)
qed

end
